theory Spec2Isabelle
  imports Main "HOL-Library.Word"
begin

section \<open>Filter schemas of \<^verbatim>\<open>prefect/orion/schemas/filters.py\<close>\<close>

text \<open>
  The module declares pydantic models: \<^verbatim>\<open>Pagination\<close>, sixteen leaf filters (one per
  filterable column) and three composite filters (\<^verbatim>\<open>FlowFilter\<close>, \<^verbatim>\<open>FlowRunFilter\<close>,
  \<^verbatim>\<open>TaskRunFilter\<close>). Every filter class derives from \<^verbatim>\<open>PrefectFilterBaseModel\<close>, whose five
  root validators run when an instance is built, and has a method \<^verbatim>\<open>as_sql_filter\<close> that
  builds an SQLAlchemy expression.

  A Python name that ends in an underscore (\<^verbatim>\<open>any_\<close>, \<^verbatim>\<open>in_\<close>, \<^verbatim>\<open>and_\<close>) is written with a
  prime (\<open>any'\<close>, \<open>in'\<close>, \<open>and'\<close>); dictionary keys keep the source's spelling.
\<close>

subsection \<open>Field values\<close>

type_synonym UUID = "128 word"

text \<open>
  \<^verbatim>\<open>schemas.states.StateType\<close> is an enumeration declared in another module; a member is
  represented by its name.
\<close>

datatype StateType = StateType string

text \<open>
  A \<^verbatim>\<open>datetime.datetime\<close> has wall-clock fields (year to microsecond; here the
  microseconds they count) and a \<^verbatim>\<open>tzinfo\<close>, which is \<^verbatim>\<open>None\<close> or a time-zone object.
  \<^item> \<open>Naive w\<close>: wall clock \<open>w\<close>, \<^verbatim>\<open>tzinfo\<close> is \<^verbatim>\<open>None\<close>.
  \<^item> \<open>Zoned w tz off\<close>: wall clock \<open>w\<close>, \<^verbatim>\<open>tzinfo\<close> is the object \<open>tz\<close> (objects are told apart
    by identity, here a number), and \<open>off\<close> is what \<^verbatim>\<open>utcoffset()\<close> returns for this value, in
    microseconds. In a zone with daylight saving the offset depends on the wall clock and
    on \<^verbatim>\<open>fold\<close>, so two values of one zone may differ in it; it is \<^verbatim>\<open>None\<close> when the zone
    gives no offset.
\<close>

datatype datetime = Naive int | Zoned int nat "int option"

fun wall :: "datetime \<Rightarrow> int" where
  "wall (Naive w) = w"
| "wall (Zoned w tz off) = w"

fun tzinfo :: "datetime \<Rightarrow> nat option" where
  "tzinfo (Naive w) = None"
| "tzinfo (Zoned w tz off) = Some tz"

fun utcoffset :: "datetime \<Rightarrow> int option" where
  "utcoffset (Naive w) = None"
| "utcoffset (Zoned w tz off) = off"

text \<open>The instant in UTC: the wall clock less the offset, when there is an offset.\<close>

definition utc :: "datetime \<Rightarrow> int option" where
  "utc d = (case utcoffset d of None \<Rightarrow> None | Some off \<Rightarrow> Some (wall d - off))"

text \<open>
  \<^verbatim>\<open>x < y\<close> on two \<^verbatim>\<open>datetime\<close> values, as \<^verbatim>\<open>datetime._cmp\<close> computes it. When both have the
  same \<^verbatim>\<open>tzinfo\<close> (the same object, or both \<^verbatim>\<open>None\<close>) or equal offsets, the wall-clock
  fields are compared and the offsets play no part. Otherwise a value without an offset
  makes the comparison raise \<^verbatim>\<open>TypeError\<close> (\<open>None\<close> below), and two values with offsets are
  compared as instants.
\<close>

definition datetime_lt :: "datetime \<Rightarrow> datetime \<Rightarrow> bool option" where
  "datetime_lt x y =
     (if tzinfo x = tzinfo y \<or> utcoffset x = utcoffset y then Some (wall x < wall y)
      else (case (utc x, utc y) of
              (Some a, Some b) \<Rightarrow> Some (a < b)
            | _ \<Rightarrow> None))"

subsection \<open>Leaf filter classes\<close>

text \<open>
  One datatype per class, its arguments the declared fields in declared order. Every field
  has the default \<^verbatim>\<open>None\<close>, so every field is optional.
\<close>

datatype FlowFilterId = FlowFilterId "UUID list option"
datatype FlowFilterName = FlowFilterName "string list option"
datatype FlowFilterTags = FlowFilterTags "string list option" "bool option"
datatype FlowRunFilterId = FlowRunFilterId "UUID list option" "UUID list option"
datatype FlowRunFilterTags = FlowRunFilterTags "string list option" "bool option"
datatype FlowRunFilterDeploymentId = FlowRunFilterDeploymentId "UUID list option" "bool option"
datatype FlowRunFilterStateType = FlowRunFilterStateType "StateType list option"
datatype FlowRunFilterFlowVersion = FlowRunFilterFlowVersion "string list option"
datatype FlowRunFilterStartTime = FlowRunFilterStartTime "datetime option" "datetime option"
datatype FlowRunFilterExpectedStartTime =
  FlowRunFilterExpectedStartTime "datetime option" "datetime option"
datatype FlowRunFilterNextScheduledStartTime =
  FlowRunFilterNextScheduledStartTime "datetime option" "datetime option"
datatype FlowRunFilterParentTaskRunId =
  FlowRunFilterParentTaskRunId "UUID list option" "bool option"
datatype TaskRunFilterId = TaskRunFilterId "UUID list option"
datatype TaskRunFilterTags = TaskRunFilterTags "string list option" "bool option"
datatype TaskRunFilterStateType = TaskRunFilterStateType "StateType list option"
datatype TaskRunFilterStartTime = TaskRunFilterStartTime "datetime option" "datetime option"

text \<open>An instance of any of the sixteen leaf classes.\<close>

datatype leaf =
    LFlowFilterId FlowFilterId
  | LFlowFilterName FlowFilterName
  | LFlowFilterTags FlowFilterTags
  | LFlowRunFilterId FlowRunFilterId
  | LFlowRunFilterTags FlowRunFilterTags
  | LFlowRunFilterDeploymentId FlowRunFilterDeploymentId
  | LFlowRunFilterStateType FlowRunFilterStateType
  | LFlowRunFilterFlowVersion FlowRunFilterFlowVersion
  | LFlowRunFilterStartTime FlowRunFilterStartTime
  | LFlowRunFilterExpectedStartTime FlowRunFilterExpectedStartTime
  | LFlowRunFilterNextScheduledStartTime FlowRunFilterNextScheduledStartTime
  | LFlowRunFilterParentTaskRunId FlowRunFilterParentTaskRunId
  | LTaskRunFilterId TaskRunFilterId
  | LTaskRunFilterTags TaskRunFilterTags
  | LTaskRunFilterStateType TaskRunFilterStateType
  | LTaskRunFilterStartTime TaskRunFilterStartTime

subsection \<open>Composite filter classes\<close>

text \<open>
  The arguments are the declared fields in declared order:
  \<^verbatim>\<open>FlowFilter\<close>: id, name, tags;
  \<^verbatim>\<open>FlowRunFilter\<close>: id, tags, deployment_id, state_type, flow_version, start_time,
  expected_start_time, next_scheduled_start_time, parent_task_run_id;
  \<^verbatim>\<open>TaskRunFilter\<close>: id, tags, state_type, start_time.
\<close>

datatype FlowFilter =
  FlowFilter "FlowFilterId option" "FlowFilterName option" "FlowFilterTags option"

datatype FlowRunFilter =
  FlowRunFilter
    "FlowRunFilterId option" "FlowRunFilterTags option" "FlowRunFilterDeploymentId option"
    "FlowRunFilterStateType option" "FlowRunFilterFlowVersion option"
    "FlowRunFilterStartTime option" "FlowRunFilterExpectedStartTime option"
    "FlowRunFilterNextScheduledStartTime option" "FlowRunFilterParentTaskRunId option"

datatype TaskRunFilter =
  TaskRunFilter
    "TaskRunFilterId option" "TaskRunFilterTags option" "TaskRunFilterStateType option"
    "TaskRunFilterStartTime option"

subsection \<open>The dictionary a root validator receives\<close>

text \<open>
  A root validator is called with \<^verbatim>\<open>values\<close>, the dictionary of the instance's fields.
  Its entries are Python values: \<^verbatim>\<open>None\<close>, a \<^verbatim>\<open>bool\<close>, a list, a \<^verbatim>\<open>datetime\<close>, or (in a
  composite) a leaf filter instance.
\<close>

datatype item = ItemUUID UUID | ItemStr string | ItemStateType StateType

datatype pyval =
    PyNone
  | PyBool bool
  | PyList "item list"
  | PyDatetime datetime
  | PyModel leaf

type_synonym "values" = "(string \<times> pyval) list"

text \<open>\<^verbatim>\<open>values.get(key)\<close>: the entry, or \<^verbatim>\<open>None\<close> when the key is missing.\<close>

definition get :: "values \<Rightarrow> string \<Rightarrow> pyval" where
  "get vs key = (case map_of vs key of None \<Rightarrow> PyNone | Some v \<Rightarrow> v)"

text \<open>
  Python's truth value: \<^verbatim>\<open>None\<close>, \<^verbatim>\<open>False\<close> and the empty list are false; a \<^verbatim>\<open>datetime\<close>
  and a model instance are always true.
\<close>

fun truthy :: "pyval \<Rightarrow> bool" where
  "truthy PyNone = False"
| "truthy (PyBool b) = b"
| "truthy (PyList xs) = (xs \<noteq> [])"
| "truthy (PyDatetime d) = True"
| "truthy (PyModel m) = True"

text \<open>
  \<^verbatim>\<open><\<close> as the range validator uses it. Only \<^verbatim>\<open>datetime\<close> fields are called \<^verbatim>\<open>before_\<close> and
  \<^verbatim>\<open>after_\<close>; for them \<open>None\<close> is the \<^verbatim>\<open>TypeError\<close> of \<^const>\<open>datetime_lt\<close>.
\<close>

fun py_lt :: "pyval \<Rightarrow> pyval \<Rightarrow> bool option" where
  "py_lt (PyDatetime x) (PyDatetime y) = datetime_lt x y"
| "py_lt x y = None"

definition py_uuids :: "UUID list option \<Rightarrow> pyval" where
  "py_uuids v = (case v of None \<Rightarrow> PyNone | Some xs \<Rightarrow> PyList (map ItemUUID xs))"

definition py_strs :: "string list option \<Rightarrow> pyval" where
  "py_strs v = (case v of None \<Rightarrow> PyNone | Some xs \<Rightarrow> PyList (map ItemStr xs))"

definition py_state_types :: "StateType list option \<Rightarrow> pyval" where
  "py_state_types v = (case v of None \<Rightarrow> PyNone | Some xs \<Rightarrow> PyList (map ItemStateType xs))"

definition py_bool :: "bool option \<Rightarrow> pyval" where
  "py_bool v = (case v of None \<Rightarrow> PyNone | Some b \<Rightarrow> PyBool b)"

definition py_datetime :: "datetime option \<Rightarrow> pyval" where
  "py_datetime v = (case v of None \<Rightarrow> PyNone | Some d \<Rightarrow> PyDatetime d)"

definition py_model :: "leaf option \<Rightarrow> pyval" where
  "py_model v = (case v of None \<Rightarrow> PyNone | Some m \<Rightarrow> PyModel m)"

text \<open>The \<^verbatim>\<open>values\<close> of a leaf filter: one entry per declared field, in declared order.\<close>

fun leaf_values :: "leaf \<Rightarrow> values" where
  "leaf_values (LFlowFilterId (FlowFilterId any')) = [(''any_'', py_uuids any')]"
| "leaf_values (LFlowFilterName (FlowFilterName any')) = [(''any_'', py_strs any')]"
| "leaf_values (LFlowFilterTags (FlowFilterTags all' is_null')) =
     [(''all_'', py_strs all'), (''is_null_'', py_bool is_null')]"
| "leaf_values (LFlowRunFilterId (FlowRunFilterId any' not_any')) =
     [(''any_'', py_uuids any'), (''not_any_'', py_uuids not_any')]"
| "leaf_values (LFlowRunFilterTags (FlowRunFilterTags all' is_null')) =
     [(''all_'', py_strs all'), (''is_null_'', py_bool is_null')]"
| "leaf_values (LFlowRunFilterDeploymentId (FlowRunFilterDeploymentId any' is_null')) =
     [(''any_'', py_uuids any'), (''is_null_'', py_bool is_null')]"
| "leaf_values (LFlowRunFilterStateType (FlowRunFilterStateType any')) =
     [(''any_'', py_state_types any')]"
| "leaf_values (LFlowRunFilterFlowVersion (FlowRunFilterFlowVersion any')) =
     [(''any_'', py_strs any')]"
| "leaf_values (LFlowRunFilterStartTime (FlowRunFilterStartTime before' after')) =
     [(''before_'', py_datetime before'), (''after_'', py_datetime after')]"
| "leaf_values (LFlowRunFilterExpectedStartTime (FlowRunFilterExpectedStartTime before' after')) =
     [(''before_'', py_datetime before'), (''after_'', py_datetime after')]"
| "leaf_values (LFlowRunFilterNextScheduledStartTime
       (FlowRunFilterNextScheduledStartTime before' after')) =
     [(''before_'', py_datetime before'), (''after_'', py_datetime after')]"
| "leaf_values (LFlowRunFilterParentTaskRunId (FlowRunFilterParentTaskRunId any' is_null')) =
     [(''any_'', py_uuids any'), (''is_null_'', py_bool is_null')]"
| "leaf_values (LTaskRunFilterId (TaskRunFilterId any')) = [(''any_'', py_uuids any')]"
| "leaf_values (LTaskRunFilterTags (TaskRunFilterTags all' is_null')) =
     [(''all_'', py_strs all'), (''is_null_'', py_bool is_null')]"
| "leaf_values (LTaskRunFilterStateType (TaskRunFilterStateType any')) =
     [(''any_'', py_state_types any')]"
| "leaf_values (LTaskRunFilterStartTime (TaskRunFilterStartTime before' after')) =
     [(''before_'', py_datetime before'), (''after_'', py_datetime after')]"

subsection \<open>Errors\<close>

text \<open>
  Every root validator raises \<^verbatim>\<open>ValueError\<close>; the constructors name the raise sites:
  \<^item> \<open>MissingOperator\<close>: "Prefect Filter must have at least one operator with arguments";
  \<^item> \<open>ConflictingOperators a b\<close>: "Cannot provide Prefect Filter ... a with b" (or "a and b");
  \<^item> \<open>InvalidRange\<close>: "... where before_ is less than after_";
  \<^item> \<open>TypeError\<close>: the comparison of the range validator raised;
  \<^item> \<open>OutOfRange field\<close>: a \<^verbatim>\<open>conint\<close> bound of \<^verbatim>\<open>Pagination\<close> is violated.
  \<open>ArgumentError\<close> is SQLAlchemy's, raised by \<^verbatim>\<open>in_\<close> and \<^verbatim>\<open>not_in\<close> on an argument that is
  not a list.
\<close>

datatype error =
    MissingOperator
  | ConflictingOperators string string
  | InvalidRange
  | TypeError
  | OutOfRange string
  | ArgumentError

subsection \<open>\<^verbatim>\<open>PrefectFilterBaseModel\<close>: the root validators\<close>

definition check_at_least_one_operator_is_not_none :: "values \<Rightarrow> error + values" where
  "check_at_least_one_operator_is_not_none vs =
     (if \<not> list_ex (\<lambda>val. val \<noteq> PyNone) (map snd vs) then Inl MissingOperator
      else Inr vs)"

definition check_all_and_is_null_are_not_both_supplied :: "values \<Rightarrow> error + values" where
  "check_all_and_is_null_are_not_both_supplied vs =
     (if get vs ''all_'' \<noteq> PyNone \<and> truthy (get vs ''is_null_'')
      then Inl (ConflictingOperators ''all_'' ''is_null_'')
      else Inr vs)"

definition check_any_and_is_null_are_not_both_supplied :: "values \<Rightarrow> error + values" where
  "check_any_and_is_null_are_not_both_supplied vs =
     (if get vs ''any_'' \<noteq> PyNone \<and> truthy (get vs ''is_null_'')
      then Inl (ConflictingOperators ''any_'' ''is_null_'')
      else Inr vs)"

definition check_any_and_is_not_any_are_not_both_supplied :: "values \<Rightarrow> error + values" where
  "check_any_and_is_not_any_are_not_both_supplied vs =
     (if get vs ''any_'' \<noteq> PyNone \<and> truthy (get vs ''not_any_'')
      then Inl (ConflictingOperators ''any_'' ''not_any_'')
      else Inr vs)"

definition check_before_and_after_are_not_mutually_exclusive :: "values \<Rightarrow> error + values" where
  "check_before_and_after_are_not_mutually_exclusive vs =
     (if get vs ''before_'' \<noteq> PyNone \<and> get vs ''after_'' \<noteq> PyNone then
        (case py_lt (get vs ''before_'') (get vs ''after_'') of
           None \<Rightarrow> Inl TypeError
         | Some True \<Rightarrow> Inl InvalidRange
         | Some False \<Rightarrow> Inr vs)
      else Inr vs)"

text \<open>The root validators of the class, in the order of their definition.\<close>

definition root_validators :: "(values \<Rightarrow> error + values) list" where
  "root_validators =
     [check_at_least_one_operator_is_not_none,
      check_all_and_is_null_are_not_both_supplied,
      check_any_and_is_null_are_not_both_supplied,
      check_any_and_is_not_any_are_not_both_supplied,
      check_before_and_after_are_not_mutually_exclusive]"

text \<open>
  pydantic calls every root validator in turn: a validator that raises adds its error and
  leaves \<^verbatim>\<open>values\<close> as they were, one that returns hands its result to the next. The
  instance is built when no error was collected; otherwise the construction raises a
  \<^verbatim>\<open>ValidationError\<close> that carries the errors.
\<close>

fun run_validators ::
  "(values \<Rightarrow> error + values) list \<Rightarrow> values \<Rightarrow> error list \<Rightarrow> values \<times> error list" where
  "run_validators [] vs errors = (vs, errors)"
| "run_validators (v # rest) vs errors =
     (case v vs of
        Inl e \<Rightarrow> run_validators rest vs (errors @ [e])
      | Inr vs' \<Rightarrow> run_validators rest vs' errors)"

definition validate_model :: "values \<Rightarrow> error list" where
  "validate_model vs = snd (run_validators root_validators vs [])"

text \<open>Building a leaf filter from its field values.\<close>

definition leaf_init :: "leaf \<Rightarrow> error list + leaf" where
  "leaf_init f = (case validate_model (leaf_values f) of [] \<Rightarrow> Inr f | errors \<Rightarrow> Inl errors)"

text \<open>
  Building a composite filter from leaf filter instances (or \<^verbatim>\<open>None\<close>). The composite
  classes derive from \<^verbatim>\<open>PrefectFilterBaseModel\<close> too, so the same root validators run on
  the dictionary of their fields.
\<close>

fun FlowFilter_values :: "FlowFilter \<Rightarrow> values" where
  "FlowFilter_values (FlowFilter id' name tags) =
     [(''id'', py_model (map_option LFlowFilterId id')),
      (''name'', py_model (map_option LFlowFilterName name)),
      (''tags'', py_model (map_option LFlowFilterTags tags))]"

fun FlowRunFilter_values :: "FlowRunFilter \<Rightarrow> values" where
  "FlowRunFilter_values
     (FlowRunFilter id' tags deployment_id state_type flow_version start_time
        expected_start_time next_scheduled_start_time parent_task_run_id) =
     [(''id'', py_model (map_option LFlowRunFilterId id')),
      (''tags'', py_model (map_option LFlowRunFilterTags tags)),
      (''deployment_id'', py_model (map_option LFlowRunFilterDeploymentId deployment_id)),
      (''state_type'', py_model (map_option LFlowRunFilterStateType state_type)),
      (''flow_version'', py_model (map_option LFlowRunFilterFlowVersion flow_version)),
      (''start_time'', py_model (map_option LFlowRunFilterStartTime start_time)),
      (''expected_start_time'',
         py_model (map_option LFlowRunFilterExpectedStartTime expected_start_time)),
      (''next_scheduled_start_time'',
         py_model (map_option LFlowRunFilterNextScheduledStartTime next_scheduled_start_time)),
      (''parent_task_run_id'',
         py_model (map_option LFlowRunFilterParentTaskRunId parent_task_run_id))]"

fun TaskRunFilter_values :: "TaskRunFilter \<Rightarrow> values" where
  "TaskRunFilter_values (TaskRunFilter id' tags state_type start_time) =
     [(''id'', py_model (map_option LTaskRunFilterId id')),
      (''tags'', py_model (map_option LTaskRunFilterTags tags)),
      (''state_type'', py_model (map_option LTaskRunFilterStateType state_type)),
      (''start_time'', py_model (map_option LTaskRunFilterStartTime start_time))]"

definition FlowFilter_init :: "FlowFilter \<Rightarrow> error list + FlowFilter" where
  "FlowFilter_init f =
     (case validate_model (FlowFilter_values f) of [] \<Rightarrow> Inr f | errors \<Rightarrow> Inl errors)"

definition FlowRunFilter_init :: "FlowRunFilter \<Rightarrow> error list + FlowRunFilter" where
  "FlowRunFilter_init f =
     (case validate_model (FlowRunFilter_values f) of [] \<Rightarrow> Inr f | errors \<Rightarrow> Inl errors)"

definition TaskRunFilter_init :: "TaskRunFilter \<Rightarrow> error list + TaskRunFilter" where
  "TaskRunFilter_init f =
     (case validate_model (TaskRunFilter_values f) of [] \<Rightarrow> Inr f | errors \<Rightarrow> Inl errors)"

subsection \<open>SQL expressions\<close>

text \<open>The ORM columns the filters refer to (\<^verbatim>\<open>orm.Flow.id\<close> is \<open>Flow_id\<close>).\<close>

datatype column =
    Flow_id | Flow_name | Flow_tags
  | FlowRun_id | FlowRun_tags | FlowRun_deployment_id | FlowRun_state_type
  | FlowRun_flow_version | FlowRun_start_time | FlowRun_expected_start_time
  | FlowRun_next_scheduled_start_time | FlowRun_parent_task_run_id
  | TaskRun_id | TaskRun_tags | TaskRun_state_type | TaskRun_start_time

text \<open>
  What \<^verbatim>\<open>as_sql_filter\<close> returns, and what it hands to \<^verbatim>\<open>sa.and_\<close>:
  \<^item> \<open>in' c v\<close> is \<^verbatim>\<open>c.in_(v)\<close>, \<open>not_in c v\<close> is \<^verbatim>\<open>c.not_in(v)\<close>;
  \<^item> \<open>json_has_all_keys c keys\<close> is the call of that name;
  \<^item> \<open>eq c v\<close> is \<^verbatim>\<open>c == v\<close>, \<open>ne c v\<close> is \<^verbatim>\<open>c != v\<close>;
  \<^item> \<open>between c low high\<close> is \<^verbatim>\<open>c.between(low, high)\<close>, \<open>le c v\<close> is \<^verbatim>\<open>c <= v\<close>,
    \<open>ge c v\<close> is \<^verbatim>\<open>c >= v\<close>;
  \<^item> \<open>and' args\<close> is \<^verbatim>\<open>sa.and_(*args)\<close>;
  \<^item> \<open>PyTrue\<close> is the Python constant \<^verbatim>\<open>True\<close>, the argument of \<^verbatim>\<open>sa.and_(True)\<close>;
  \<^item> \<open>NoneResult\<close> is \<^verbatim>\<open>None\<close>, which a method returns when no branch of its
    \<^verbatim>\<open>if\<close>/\<^verbatim>\<open>elif\<close> chain is taken.
\<close>

datatype sql =
    in' column pyval
  | not_in column pyval
  | json_has_all_keys column "string list"
  | eq column pyval
  | ne column pyval
  | between column datetime datetime
  | le column datetime
  | ge column datetime
  | and' "sql list"
  | PyTrue
  | NoneResult

subsection \<open>\<^verbatim>\<open>as_sql_filter\<close> of the leaf classes\<close>

fun FlowFilterId_as_sql_filter :: "FlowFilterId \<Rightarrow> sql" where
  "FlowFilterId_as_sql_filter (FlowFilterId any') = in' Flow_id (py_uuids any')"

fun FlowFilterName_as_sql_filter :: "FlowFilterName \<Rightarrow> sql" where
  "FlowFilterName_as_sql_filter (FlowFilterName any') = in' Flow_name (py_strs any')"

fun FlowFilterTags_as_sql_filter :: "FlowFilterTags \<Rightarrow> sql" where
  "FlowFilterTags_as_sql_filter (FlowFilterTags all' is_null') =
     (case all' of
        Some tags \<Rightarrow> json_has_all_keys Flow_tags tags
      | None \<Rightarrow>
         (case is_null' of
            Some b \<Rightarrow> (if b then eq Flow_tags (PyList []) else ne Flow_tags (PyList []))
          | None \<Rightarrow> NoneResult))"

fun FlowRunFilterId_as_sql_filter :: "FlowRunFilterId \<Rightarrow> sql" where
  "FlowRunFilterId_as_sql_filter (FlowRunFilterId any' not_any') =
     (case any' of
        Some ids \<Rightarrow> in' FlowRun_id (PyList (map ItemUUID ids))
      | None \<Rightarrow>
         (case not_any' of
            Some ids \<Rightarrow> not_in FlowRun_id (PyList (map ItemUUID ids))
          | None \<Rightarrow> NoneResult))"

fun FlowRunFilterTags_as_sql_filter :: "FlowRunFilterTags \<Rightarrow> sql" where
  "FlowRunFilterTags_as_sql_filter (FlowRunFilterTags all' is_null') =
     (case all' of
        Some tags \<Rightarrow> json_has_all_keys FlowRun_tags tags
      | None \<Rightarrow>
         (case is_null' of
            Some b \<Rightarrow> (if b then eq FlowRun_tags (PyList []) else ne FlowRun_tags (PyList []))
          | None \<Rightarrow> NoneResult))"

fun FlowRunFilterDeploymentId_as_sql_filter :: "FlowRunFilterDeploymentId \<Rightarrow> sql" where
  "FlowRunFilterDeploymentId_as_sql_filter (FlowRunFilterDeploymentId any' is_null') =
     (case any' of
        Some ids \<Rightarrow> in' FlowRun_deployment_id (PyList (map ItemUUID ids))
      | None \<Rightarrow>
         (case is_null' of
            Some b \<Rightarrow>
              (if b then eq FlowRun_deployment_id PyNone else ne FlowRun_deployment_id PyNone)
          | None \<Rightarrow> NoneResult))"

fun FlowRunFilterStateType_as_sql_filter :: "FlowRunFilterStateType \<Rightarrow> sql" where
  "FlowRunFilterStateType_as_sql_filter (FlowRunFilterStateType any') =
     in' FlowRun_state_type (py_state_types any')"

fun FlowRunFilterFlowVersion_as_sql_filter :: "FlowRunFilterFlowVersion \<Rightarrow> sql" where
  "FlowRunFilterFlowVersion_as_sql_filter (FlowRunFilterFlowVersion any') =
     in' FlowRun_flow_version (py_strs any')"

text \<open>
  The range filters test \<^verbatim>\<open>self.before_\<close> and \<^verbatim>\<open>self.after_\<close> for truth; a \<^verbatim>\<open>datetime\<close> is
  always true (\<^const>\<open>truthy\<close>), so the test is passed exactly by a bound that is not
  \<^verbatim>\<open>None\<close>.
\<close>

fun FlowRunFilterStartTime_as_sql_filter :: "FlowRunFilterStartTime \<Rightarrow> sql" where
  "FlowRunFilterStartTime_as_sql_filter (FlowRunFilterStartTime before' after') =
     (case (before', after') of
        (Some b, Some a) \<Rightarrow> between FlowRun_start_time a b
      | (Some b, None) \<Rightarrow> le FlowRun_start_time b
      | (None, Some a) \<Rightarrow> ge FlowRun_start_time a
      | (None, None) \<Rightarrow> NoneResult)"

fun FlowRunFilterExpectedStartTime_as_sql_filter :: "FlowRunFilterExpectedStartTime \<Rightarrow> sql" where
  "FlowRunFilterExpectedStartTime_as_sql_filter (FlowRunFilterExpectedStartTime before' after') =
     (case (before', after') of
        (Some b, Some a) \<Rightarrow> between FlowRun_expected_start_time a b
      | (Some b, None) \<Rightarrow> le FlowRun_expected_start_time b
      | (None, Some a) \<Rightarrow> ge FlowRun_expected_start_time a
      | (None, None) \<Rightarrow> NoneResult)"

fun FlowRunFilterNextScheduledStartTime_as_sql_filter ::
  "FlowRunFilterNextScheduledStartTime \<Rightarrow> sql" where
  "FlowRunFilterNextScheduledStartTime_as_sql_filter
     (FlowRunFilterNextScheduledStartTime before' after') =
     (case (before', after') of
        (Some b, Some a) \<Rightarrow> between FlowRun_next_scheduled_start_time a b
      | (Some b, None) \<Rightarrow> le FlowRun_next_scheduled_start_time b
      | (None, Some a) \<Rightarrow> ge FlowRun_next_scheduled_start_time a
      | (None, None) \<Rightarrow> NoneResult)"

fun FlowRunFilterParentTaskRunId_as_sql_filter :: "FlowRunFilterParentTaskRunId \<Rightarrow> sql" where
  "FlowRunFilterParentTaskRunId_as_sql_filter (FlowRunFilterParentTaskRunId any' is_null') =
     (case any' of
        Some ids \<Rightarrow> in' FlowRun_parent_task_run_id (PyList (map ItemUUID ids))
      | None \<Rightarrow>
         (case is_null' of
            Some b \<Rightarrow>
              (if b then eq FlowRun_parent_task_run_id PyNone
               else ne FlowRun_parent_task_run_id PyNone)
          | None \<Rightarrow> NoneResult))"

fun TaskRunFilterId_as_sql_filter :: "TaskRunFilterId \<Rightarrow> sql" where
  "TaskRunFilterId_as_sql_filter (TaskRunFilterId any') = in' TaskRun_id (py_uuids any')"

fun TaskRunFilterTags_as_sql_filter :: "TaskRunFilterTags \<Rightarrow> sql" where
  "TaskRunFilterTags_as_sql_filter (TaskRunFilterTags all' is_null') =
     (case all' of
        Some tags \<Rightarrow> json_has_all_keys TaskRun_tags tags
      | None \<Rightarrow>
         (case is_null' of
            Some b \<Rightarrow> (if b then eq TaskRun_tags (PyList []) else ne TaskRun_tags (PyList []))
          | None \<Rightarrow> NoneResult))"

fun TaskRunFilterStateType_as_sql_filter :: "TaskRunFilterStateType \<Rightarrow> sql" where
  "TaskRunFilterStateType_as_sql_filter (TaskRunFilterStateType any') =
     in' TaskRun_state_type (py_state_types any')"

fun TaskRunFilterStartTime_as_sql_filter :: "TaskRunFilterStartTime \<Rightarrow> sql" where
  "TaskRunFilterStartTime_as_sql_filter (TaskRunFilterStartTime before' after') =
     (case (before', after') of
        (Some b, Some a) \<Rightarrow> between TaskRun_start_time a b
      | (Some b, None) \<Rightarrow> le TaskRun_start_time b
      | (None, Some a) \<Rightarrow> ge TaskRun_start_time a
      | (None, None) \<Rightarrow> NoneResult)"

text \<open>The method call \<^verbatim>\<open>f.as_sql_filter()\<close> on an instance of any leaf class.\<close>

fun as_sql_filter :: "leaf \<Rightarrow> sql" where
  "as_sql_filter (LFlowFilterId f) = FlowFilterId_as_sql_filter f"
| "as_sql_filter (LFlowFilterName f) = FlowFilterName_as_sql_filter f"
| "as_sql_filter (LFlowFilterTags f) = FlowFilterTags_as_sql_filter f"
| "as_sql_filter (LFlowRunFilterId f) = FlowRunFilterId_as_sql_filter f"
| "as_sql_filter (LFlowRunFilterTags f) = FlowRunFilterTags_as_sql_filter f"
| "as_sql_filter (LFlowRunFilterDeploymentId f) = FlowRunFilterDeploymentId_as_sql_filter f"
| "as_sql_filter (LFlowRunFilterStateType f) = FlowRunFilterStateType_as_sql_filter f"
| "as_sql_filter (LFlowRunFilterFlowVersion f) = FlowRunFilterFlowVersion_as_sql_filter f"
| "as_sql_filter (LFlowRunFilterStartTime f) = FlowRunFilterStartTime_as_sql_filter f"
| "as_sql_filter (LFlowRunFilterExpectedStartTime f) =
     FlowRunFilterExpectedStartTime_as_sql_filter f"
| "as_sql_filter (LFlowRunFilterNextScheduledStartTime f) =
     FlowRunFilterNextScheduledStartTime_as_sql_filter f"
| "as_sql_filter (LFlowRunFilterParentTaskRunId f) =
     FlowRunFilterParentTaskRunId_as_sql_filter f"
| "as_sql_filter (LTaskRunFilterId f) = TaskRunFilterId_as_sql_filter f"
| "as_sql_filter (LTaskRunFilterTags f) = TaskRunFilterTags_as_sql_filter f"
| "as_sql_filter (LTaskRunFilterStateType f) = TaskRunFilterStateType_as_sql_filter f"
| "as_sql_filter (LTaskRunFilterStartTime f) = TaskRunFilterStartTime_as_sql_filter f"

text \<open>
  What the call \<^verbatim>\<open>f.as_sql_filter()\<close> does. \<^const>\<open>as_sql_filter\<close> gives the expression the
  method's text builds; \<^verbatim>\<open>column.in_(v)\<close> and \<^verbatim>\<open>column.not_in(v)\<close> raise
  \<^verbatim>\<open>ArgumentError\<close> when \<open>v\<close> is not a list, so on a leaf whose \<^verbatim>\<open>any_\<close> is \<^verbatim>\<open>None\<close> the
  unguarded \<^verbatim>\<open>in_(self.any_)\<close> raises and the call returns nothing.
\<close>

fun is_list :: "pyval \<Rightarrow> bool" where
  "is_list (PyList xs) = True"
| "is_list v = False"

definition call_as_sql_filter :: "leaf \<Rightarrow> error + sql" where
  "call_as_sql_filter f =
     (case as_sql_filter f of
        in' c v \<Rightarrow> (if is_list v then Inr (in' c v) else Inl ArgumentError)
      | not_in c v \<Rightarrow> (if is_list v then Inr (not_in c v) else Inl ArgumentError)
      | e \<Rightarrow> Inr e)"

subsection \<open>\<^verbatim>\<open>as_sql_filter\<close> of the composite classes\<close>

text \<open>
  \<^verbatim>\<open>if self.x is not None: filters.append(self.x.as_sql_filter())\<close>: the list after the
  statement.
\<close>

definition append_filter :: "sql list \<Rightarrow> 'a option \<Rightarrow> ('a \<Rightarrow> sql) \<Rightarrow> sql list" where
  "append_filter filters x compile =
     (case x of None \<Rightarrow> filters | Some f \<Rightarrow> filters @ [compile f])"

text \<open>\<^verbatim>\<open>sa.and_(*filters) if filters else sa.and_(True)\<close>.\<close>

definition and_filters :: "sql list \<Rightarrow> sql" where
  "and_filters filters = (if filters \<noteq> [] then and' filters else and' [PyTrue])"

fun FlowFilter_as_sql_filter :: "FlowFilter \<Rightarrow> sql" where
  "FlowFilter_as_sql_filter (FlowFilter id' name tags) =
     (let filters = [];
          filters = append_filter filters id' FlowFilterId_as_sql_filter;
          filters = append_filter filters name FlowFilterName_as_sql_filter;
          filters = append_filter filters tags FlowFilterTags_as_sql_filter
      in and_filters filters)"

fun FlowRunFilter_as_sql_filter :: "FlowRunFilter \<Rightarrow> sql" where
  "FlowRunFilter_as_sql_filter
     (FlowRunFilter id' tags deployment_id state_type flow_version start_time
        expected_start_time next_scheduled_start_time parent_task_run_id) =
     (let filters = [];
          filters = append_filter filters id' FlowRunFilterId_as_sql_filter;
          filters = append_filter filters tags FlowRunFilterTags_as_sql_filter;
          filters = append_filter filters deployment_id FlowRunFilterDeploymentId_as_sql_filter;
          filters = append_filter filters flow_version FlowRunFilterFlowVersion_as_sql_filter;
          filters = append_filter filters state_type FlowRunFilterStateType_as_sql_filter;
          filters = append_filter filters start_time FlowRunFilterStartTime_as_sql_filter;
          filters = append_filter filters expected_start_time
                      FlowRunFilterExpectedStartTime_as_sql_filter;
          filters = append_filter filters next_scheduled_start_time
                      FlowRunFilterNextScheduledStartTime_as_sql_filter;
          filters = append_filter filters parent_task_run_id
                      FlowRunFilterParentTaskRunId_as_sql_filter
      in and_filters filters)"

fun TaskRunFilter_as_sql_filter :: "TaskRunFilter \<Rightarrow> sql" where
  "TaskRunFilter_as_sql_filter (TaskRunFilter id' tags state_type start_time) =
     (let filters = [];
          filters = append_filter filters id' TaskRunFilterId_as_sql_filter;
          filters = append_filter filters tags TaskRunFilterTags_as_sql_filter;
          filters = append_filter filters state_type TaskRunFilterStateType_as_sql_filter;
          filters = append_filter filters start_time TaskRunFilterStartTime_as_sql_filter
      in and_filters filters)"

subsection \<open>\<^verbatim>\<open>Pagination\<close>\<close>

text \<open>
  \<^verbatim>\<open>limit: conint(ge=0, le=default_limit) = default_limit\<close> and
  \<^verbatim>\<open>offset: conint(ge=0) = 0\<close>. The setting \<^verbatim>\<open>prefect.settings.orion.api.default_limit\<close> is
  declared outside this module and is a parameter here. \<^verbatim>\<open>Pagination\<close> derives from
  \<^verbatim>\<open>PrefectBaseModel\<close>, so no root validator runs. A field that is not supplied takes its
  default, which pydantic does not validate.
\<close>

record Pagination =
  limit :: int
  offset :: int

text \<open>A constrained integer: the lower bound is checked first, then the upper bound.\<close>

definition conint :: "int option \<Rightarrow> int option \<Rightarrow> string \<Rightarrow> int \<Rightarrow> error + int" where
  "conint ge' le' field v =
     (if (case ge' of None \<Rightarrow> False | Some lo \<Rightarrow> \<not> lo \<le> v) then Inl (OutOfRange field)
      else if (case le' of None \<Rightarrow> False | Some hi \<Rightarrow> \<not> v \<le> hi) then Inl (OutOfRange field)
      else Inr v)"

definition field_errors :: "(error + int) list \<Rightarrow> error list" where
  "field_errors rs = concat (map (\<lambda>r. case r of Inl e \<Rightarrow> [e] | Inr v \<Rightarrow> []) rs)"

definition Pagination_init :: "int \<Rightarrow> int option \<Rightarrow> int option \<Rightarrow> error list + Pagination" where
  "Pagination_init default_limit limit' offset' =
     (let l = (case limit' of
                 None \<Rightarrow> Inr default_limit
               | Some v \<Rightarrow> conint (Some 0) (Some default_limit) ''limit'' v);
          off = (case offset' of
                 None \<Rightarrow> Inr 0
               | Some v \<Rightarrow> conint (Some 0) None ''offset'' v)
      in case (l, off) of
           (Inr lv, Inr ov) \<Rightarrow> Inr \<lparr>limit = lv, offset = ov\<rparr>
         | _ \<Rightarrow> Inl (field_errors [l, off]))"

subsection \<open>Vocabulary of the properties\<close>

text \<open>A construction fails with error \<open>e\<close>: it raises, and \<open>e\<close> is among the errors reported.\<close>

definition raises :: "error list + 'a \<Rightarrow> error \<Rightarrow> bool" where
  "raises r e = (case r of Inl errors \<Rightarrow> e \<in> set errors | Inr x \<Rightarrow> False)"

text \<open>
  The four range (timestamp) filter classes, each with the column its \<^verbatim>\<open>as_sql_filter\<close>
  compares.
\<close>

definition range_filter_classes ::
  "((datetime option \<Rightarrow> datetime option \<Rightarrow> leaf) \<times> column) list" where
  "range_filter_classes =
     [(\<lambda>b a. LFlowRunFilterStartTime (FlowRunFilterStartTime b a), FlowRun_start_time),
      (\<lambda>b a. LFlowRunFilterExpectedStartTime (FlowRunFilterExpectedStartTime b a),
         FlowRun_expected_start_time),
      (\<lambda>b a. LFlowRunFilterNextScheduledStartTime (FlowRunFilterNextScheduledStartTime b a),
         FlowRun_next_scheduled_start_time),
      (\<lambda>b a. LTaskRunFilterStartTime (TaskRunFilterStartTime b a), TaskRun_start_time)]"

text \<open>
  The result is a comparison on a column: neither \<^verbatim>\<open>None\<close>, nor \<^verbatim>\<open>True\<close>, nor a
  conjunction.
\<close>

fun is_comparison :: "sql \<Rightarrow> bool" where
  "is_comparison (in' c v) = True"
| "is_comparison (not_in c v) = True"
| "is_comparison (json_has_all_keys c ks) = True"
| "is_comparison (eq c v) = True"
| "is_comparison (ne c v) = True"
| "is_comparison (between c l h) = True"
| "is_comparison (le c v) = True"
| "is_comparison (ge c v) = True"
| "is_comparison (and' args) = False"
| "is_comparison PyTrue = False"
| "is_comparison NoneResult = False"

text \<open>The fragments of the populated fields: the entries that are not \<^verbatim>\<open>None\<close>, in order.\<close>

definition populated :: "sql option list \<Rightarrow> sql list" where
  "populated xs = concat (map (\<lambda>x. case x of None \<Rightarrow> [] | Some e \<Rightarrow> [e]) xs)"

section \<open>Running the validators\<close>

lemmas check_defs =
  check_at_least_one_operator_is_not_none_def
  check_all_and_is_null_are_not_both_supplied_def
  check_any_and_is_null_are_not_both_supplied_def
  check_any_and_is_not_any_are_not_both_supplied_def
  check_before_and_after_are_not_mutually_exclusive_def

lemmas py_defs =
  py_uuids_def py_strs_def py_state_types_def py_bool_def py_datetime_def py_model_def

text \<open>No validator changes \<^verbatim>\<open>values\<close>, so the errors are those of each check on the input.\<close>

lemma check_returns_input:
  "v \<in> set root_validators \<Longrightarrow> v vs = Inr vs' \<Longrightarrow> vs' = vs"
  by (auto simp: root_validators_def check_defs split: if_splits option.splits bool.splits)

lemma validate_model_unfold:
  "validate_model vs =
     (case check_at_least_one_operator_is_not_none vs of Inl e \<Rightarrow> [e] | Inr x \<Rightarrow> []) @
     (case check_all_and_is_null_are_not_both_supplied vs of Inl e \<Rightarrow> [e] | Inr x \<Rightarrow> []) @
     (case check_any_and_is_null_are_not_both_supplied vs of Inl e \<Rightarrow> [e] | Inr x \<Rightarrow> []) @
     (case check_any_and_is_not_any_are_not_both_supplied vs of Inl e \<Rightarrow> [e] | Inr x \<Rightarrow> []) @
     (case check_before_and_after_are_not_mutually_exclusive vs of Inl e \<Rightarrow> [e] | Inr x \<Rightarrow> [])"
  by (simp add: validate_model_def root_validators_def check_defs
        split: option.splits bool.splits)

lemma leaf_init_unfold:
  "leaf_init f = (if validate_model (leaf_values f) = [] then Inr f
                  else Inl (validate_model (leaf_values f)))"
  by (simp add: leaf_init_def split: list.splits)

lemma leaf_init_Inr: "leaf_init f = Inr f' \<longleftrightarrow> f' = f \<and> validate_model (leaf_values f) = []"
  by (auto simp: leaf_init_unfold)

section \<open>Leaf filters: validation\<close>

text \<open>
  C4. A leaf filter whose operator attributes are all \<^verbatim>\<open>None\<close> is rejected: the construction
  raises, and the one error reported is \<open>MissingOperator\<close>.
\<close>

theorem all_none_leaf_raises_MissingOperator:
  assumes "list_all (\<lambda>v. v = PyNone) (map snd (leaf_values f))"
  shows "leaf_init f = Inl [MissingOperator]"
  using assms
  by (cases f; rename_tac x; case_tac x)
     (auto simp: leaf_init_unfold validate_model_unfold check_defs get_def)

theorem all_none_leaf_raises_MissingOperator_witness:
  "list_all (\<lambda>v. v = PyNone)
     (map snd (leaf_values (LFlowRunFilterId (FlowRunFilterId None None))))
   \<and> leaf_init (LFlowRunFilterId (FlowRunFilterId None None)) = Inl [MissingOperator]"
  using all_none_leaf_raises_MissingOperator [of "LFlowRunFilterId (FlowRunFilterId None None)"]
  by (simp add: py_defs)

text \<open>
  C2, as stated, fails: \<^verbatim>\<open>FlowFilterTags(all_=["x"], is_null_=False)\<close> carries both \<^verbatim>\<open>all_\<close>
  and \<^verbatim>\<open>is_null_\<close>, and its construction succeeds. The validators test the second
  attribute of each pair for truth, not for presence.
\<close>

theorem conflicting_operators_counterexample:
  "get (leaf_values (LFlowFilterTags (FlowFilterTags (Some [''x'']) (Some False)))) ''all_''
     \<noteq> PyNone
   \<and> get (leaf_values (LFlowFilterTags (FlowFilterTags (Some [''x'']) (Some False)))) ''is_null_''
     \<noteq> PyNone
   \<and> leaf_init (LFlowFilterTags (FlowFilterTags (Some [''x'']) (Some False)))
       = Inr (LFlowFilterTags (FlowFilterTags (Some [''x'']) (Some False)))"
  by (simp add: leaf_init_unfold validate_model_unfold check_defs get_def py_defs)

text \<open>
  C2, amended. For every leaf filter the construction fails with \<open>ConflictingOperators\<close>
  when \<^verbatim>\<open>all_\<close> is present and \<^verbatim>\<open>is_null_\<close> is true, when \<^verbatim>\<open>any_\<close> is present and \<^verbatim>\<open>is_null_\<close>
  is true, and when \<^verbatim>\<open>any_\<close> is present and \<^verbatim>\<open>not_any_\<close> is a non-empty list. With
  \<^verbatim>\<open>is_null_ = False\<close> neither \<^verbatim>\<open>is_null_\<close> conflict is reported.
\<close>

theorem conflicting_operators_when_truthy:
  "(get (leaf_values f) ''all_'' \<noteq> PyNone \<and> get (leaf_values f) ''is_null_'' = PyBool True
      \<longrightarrow> raises (leaf_init f) (ConflictingOperators ''all_'' ''is_null_''))
   \<and> (get (leaf_values f) ''any_'' \<noteq> PyNone \<and> get (leaf_values f) ''is_null_'' = PyBool True
      \<longrightarrow> raises (leaf_init f) (ConflictingOperators ''any_'' ''is_null_''))
   \<and> (get (leaf_values f) ''any_'' \<noteq> PyNone
       \<and> (\<exists>x xs. get (leaf_values f) ''not_any_'' = PyList (x # xs))
      \<longrightarrow> raises (leaf_init f) (ConflictingOperators ''any_'' ''not_any_''))
   \<and> (get (leaf_values f) ''is_null_'' = PyBool False
      \<longrightarrow> \<not> raises (leaf_init f) (ConflictingOperators ''all_'' ''is_null_'')
        \<and> \<not> raises (leaf_init f) (ConflictingOperators ''any_'' ''is_null_''))"
proof -
  let ?vs = "leaf_values f"
  have errors: "raises (leaf_init f) e \<longleftrightarrow> e \<in> set (validate_model ?vs)" for e
    by (simp add: raises_def leaf_init_unfold)
  have all_null: "ConflictingOperators ''all_'' ''is_null_'' \<in> set (validate_model ?vs)
      \<longleftrightarrow> get ?vs ''all_'' \<noteq> PyNone \<and> truthy (get ?vs ''is_null_'')"
    by (auto simp: validate_model_unfold check_defs split: option.splits bool.splits)
  have any_null: "ConflictingOperators ''any_'' ''is_null_'' \<in> set (validate_model ?vs)
      \<longleftrightarrow> get ?vs ''any_'' \<noteq> PyNone \<and> truthy (get ?vs ''is_null_'')"
    by (auto simp: validate_model_unfold check_defs split: option.splits bool.splits)
  have any_not_any: "ConflictingOperators ''any_'' ''not_any_'' \<in> set (validate_model ?vs)
      \<longleftrightarrow> get ?vs ''any_'' \<noteq> PyNone \<and> truthy (get ?vs ''not_any_'')"
    by (auto simp: validate_model_unfold check_defs split: option.splits bool.splits)
  show ?thesis
    unfolding errors all_null any_null any_not_any by auto
qed

theorem conflicting_operators_when_truthy_witness:
  "raises (leaf_init (LFlowFilterTags (FlowFilterTags (Some [''x'']) (Some True))))
     (ConflictingOperators ''all_'' ''is_null_'')
   \<and> raises
       (leaf_init (LFlowRunFilterDeploymentId (FlowRunFilterDeploymentId (Some [1]) (Some True))))
       (ConflictingOperators ''any_'' ''is_null_'')
   \<and> raises (leaf_init (LFlowRunFilterId (FlowRunFilterId (Some [1]) (Some [2]))))
       (ConflictingOperators ''any_'' ''not_any_'')
   \<and> \<not> raises (leaf_init (LFlowFilterTags (FlowFilterTags (Some [''x'']) (Some False))))
       (ConflictingOperators ''all_'' ''is_null_'')"
  using
    conflicting_operators_when_truthy
      [of "LFlowFilterTags (FlowFilterTags (Some [''x'']) (Some True))"]
    conflicting_operators_when_truthy
      [of "LFlowRunFilterDeploymentId (FlowRunFilterDeploymentId (Some [1]) (Some True))"]
    conflicting_operators_when_truthy
      [of "LFlowRunFilterId (FlowRunFilterId (Some [1]) (Some [2]))"]
    conflicting_operators_when_truthy
      [of "LFlowFilterTags (FlowFilterTags (Some [''x'']) (Some False))"]
  by (simp add: get_def py_defs)

section \<open>Range filters\<close>

lemma range_class_cases:
  assumes "(mk, col) \<in> set range_filter_classes"
  obtains
    "mk = (\<lambda>b a. LFlowRunFilterStartTime (FlowRunFilterStartTime b a))"
    "col = FlowRun_start_time"
  | "mk = (\<lambda>b a. LFlowRunFilterExpectedStartTime (FlowRunFilterExpectedStartTime b a))"
    "col = FlowRun_expected_start_time"
  | "mk = (\<lambda>b a. LFlowRunFilterNextScheduledStartTime (FlowRunFilterNextScheduledStartTime b a))"
    "col = FlowRun_next_scheduled_start_time"
  | "mk = (\<lambda>b a. LTaskRunFilterStartTime (TaskRunFilterStartTime b a))"
    "col = TaskRun_start_time"
  using assms by (auto simp: range_filter_classes_def)

text \<open>The errors of a range filter, by which bounds are present.\<close>

lemma range_validate:
  assumes "(mk, col) \<in> set range_filter_classes"
  shows "validate_model (leaf_values (mk before' after')) =
     (case (before', after') of
        (None, None) \<Rightarrow> [MissingOperator]
      | (Some b, Some a) \<Rightarrow>
          (case datetime_lt b a of
             None \<Rightarrow> [TypeError]
           | Some True \<Rightarrow> [InvalidRange]
           | Some False \<Rightarrow> [])
      | _ \<Rightarrow> [])"
  using assms
  by (cases rule: range_class_cases)
     (auto simp: validate_model_unfold check_defs get_def py_defs
           split: option.splits bool.splits)





text \<open>
  C6. A range filter that passed validation has at least one bound, and \<^verbatim>\<open>as_sql_filter\<close>
  returns \<^verbatim>\<open>between(after_, before_)\<close> on its column when both bounds are present,
  \<^verbatim>\<open><= before_\<close> when only \<^verbatim>\<open>before_\<close> is, and \<^verbatim>\<open>>= after_\<close> when only \<^verbatim>\<open>after_\<close> is.
\<close>

theorem range_filter_as_sql_filter:
  assumes "(mk, col) \<in> set range_filter_classes"
      and "leaf_init (mk before' after') = Inr f"
  shows "f = mk before' after'
       \<and> ((\<exists>b a. before' = Some b \<and> after' = Some a \<and> as_sql_filter f = between col a b)
        \<or> (\<exists>b. before' = Some b \<and> after' = None \<and> as_sql_filter f = le col b)
        \<or> (\<exists>a. before' = None \<and> after' = Some a \<and> as_sql_filter f = ge col a))"
proof -
  have f: "f = mk before' after'" and ok: "validate_model (leaf_values (mk before' after')) = []"
    using assms(2) by (auto simp: leaf_init_Inr)
  from ok have ne: "before' \<noteq> None \<or> after' \<noteq> None"
    by (cases before'; cases after') (simp_all add: range_validate [OF assms(1)])
  show ?thesis
    unfolding f using assms(1) ne
    by (cases rule: range_class_cases; cases before'; cases after'; simp)
qed

theorem range_filter_as_sql_filter_witness:
  "(\<lambda>b a. LFlowRunFilterStartTime (FlowRunFilterStartTime b a), FlowRun_start_time)
     \<in> set range_filter_classes
   \<and> leaf_init (LFlowRunFilterStartTime (FlowRunFilterStartTime (Some (Naive 7)) None))
       = Inr (LFlowRunFilterStartTime (FlowRunFilterStartTime (Some (Naive 7)) None))
   \<and> as_sql_filter (LFlowRunFilterStartTime (FlowRunFilterStartTime (Some (Naive 7)) None))
       = le FlowRun_start_time (Naive 7)"
proof -
  have h: "(\<lambda>b a. LFlowRunFilterStartTime (FlowRunFilterStartTime b a), FlowRun_start_time)
     \<in> set range_filter_classes"
    by (simp add: range_filter_classes_def)
  have i: "leaf_init (LFlowRunFilterStartTime (FlowRunFilterStartTime (Some (Naive 7)) None))
       = Inr (LFlowRunFilterStartTime (FlowRunFilterStartTime (Some (Naive 7)) None))"
    by (simp add: leaf_init_unfold validate_model_unfold check_defs get_def py_defs)
  show ?thesis
    using h i range_filter_as_sql_filter [OF h, of "Some (Naive 7)" None, OF i] by simp
qed

section \<open>Leaf filters: compilation\<close>

text \<open>
  C7. A leaf filter that carries only \<^verbatim>\<open>is_null_\<close> passes validation, and \<^verbatim>\<open>as_sql_filter\<close>
  returns the emptiness test for \<^verbatim>\<open>is_null_ = True\<close> and its negation for
  \<^verbatim>\<open>is_null_ = False\<close>: on a tags column the comparison with the empty list
  (\<^verbatim>\<open>tags == []\<close>, \<^verbatim>\<open>tags != []\<close>), on the foreign keys \<^verbatim>\<open>deployment_id\<close> and
  \<^verbatim>\<open>parent_task_run_id\<close> the comparison of the foreign-key column itself with \<^verbatim>\<open>None\<close>.
\<close>

theorem is_null_as_sql_filter:
  "leaf_init (LFlowFilterTags (FlowFilterTags None (Some b)))
     = Inr (LFlowFilterTags (FlowFilterTags None (Some b)))
   \<and> FlowFilterTags_as_sql_filter (FlowFilterTags None (Some b)) =
       (if b then eq Flow_tags (PyList []) else ne Flow_tags (PyList []))
   \<and> leaf_init (LFlowRunFilterTags (FlowRunFilterTags None (Some b)))
     = Inr (LFlowRunFilterTags (FlowRunFilterTags None (Some b)))
   \<and> FlowRunFilterTags_as_sql_filter (FlowRunFilterTags None (Some b)) =
       (if b then eq FlowRun_tags (PyList []) else ne FlowRun_tags (PyList []))
   \<and> leaf_init (LTaskRunFilterTags (TaskRunFilterTags None (Some b)))
     = Inr (LTaskRunFilterTags (TaskRunFilterTags None (Some b)))
   \<and> TaskRunFilterTags_as_sql_filter (TaskRunFilterTags None (Some b)) =
       (if b then eq TaskRun_tags (PyList []) else ne TaskRun_tags (PyList []))
   \<and> leaf_init (LFlowRunFilterDeploymentId (FlowRunFilterDeploymentId None (Some b)))
     = Inr (LFlowRunFilterDeploymentId (FlowRunFilterDeploymentId None (Some b)))
   \<and> FlowRunFilterDeploymentId_as_sql_filter (FlowRunFilterDeploymentId None (Some b)) =
       (if b then eq FlowRun_deployment_id PyNone else ne FlowRun_deployment_id PyNone)
   \<and> leaf_init (LFlowRunFilterParentTaskRunId (FlowRunFilterParentTaskRunId None (Some b)))
     = Inr (LFlowRunFilterParentTaskRunId (FlowRunFilterParentTaskRunId None (Some b)))
   \<and> FlowRunFilterParentTaskRunId_as_sql_filter (FlowRunFilterParentTaskRunId None (Some b)) =
       (if b then eq FlowRun_parent_task_run_id PyNone else ne FlowRun_parent_task_run_id PyNone)"
proof -
  have valid: "validate_model [(k, PyNone), (''is_null_'', PyBool b)] = []" for k
    by (simp add: validate_model_unfold check_defs get_def)
  show ?thesis
    by (simp add: leaf_init_unfold valid py_defs)
qed

text \<open>
  C9. On a leaf filter that passed validation the call of \<^verbatim>\<open>as_sql_filter\<close> returns: it
  does not raise (\<^verbatim>\<open>in_\<close> and \<^verbatim>\<open>not_in\<close> receive a list), and what it returns is a comparison
  on the filter's column, not the \<^verbatim>\<open>None\<close> of a fall through the \<^verbatim>\<open>if\<close>/\<^verbatim>\<open>elif\<close> chain.
\<close>

theorem validated_leaf_as_sql_filter_total:
  assumes "leaf_init f = Inr f'"
  shows "f' = f
       \<and> call_as_sql_filter f' = Inr (as_sql_filter f')
       \<and> as_sql_filter f' \<noteq> NoneResult
       \<and> is_comparison (as_sql_filter f')"
proof -
  have f: "f' = f" and ok: "validate_model (leaf_values f) = []"
    using assms by (auto simp: leaf_init_Inr)
  from ok have "check_at_least_one_operator_is_not_none (leaf_values f) = Inr (leaf_values f)"
    by (auto simp: validate_model_unfold check_at_least_one_operator_is_not_none_def
          split: sum.splits if_splits)
  then have some: "list_ex (\<lambda>val. val \<noteq> PyNone) (map snd (leaf_values f))"
    by (auto simp: check_at_least_one_operator_is_not_none_def split: if_splits)
  have returns: "call_as_sql_filter f = Inr (as_sql_filter f)"
    using some
    by (cases f; rename_tac x; case_tac x)
       (auto simp: call_as_sql_filter_def py_defs split: option.splits)
  have comparison: "is_comparison (as_sql_filter f)"
    using some
    by (cases f; rename_tac x; case_tac x)
       (auto simp: py_defs split: option.splits)
  then have "as_sql_filter f \<noteq> NoneResult"
    by auto
  with returns comparison show ?thesis
    unfolding f by simp
qed

theorem validated_leaf_as_sql_filter_total_witness:
  "leaf_init (LFlowFilterId (FlowFilterId (Some [1])))
     = Inr (LFlowFilterId (FlowFilterId (Some [1])))
   \<and> call_as_sql_filter (LFlowFilterId (FlowFilterId (Some [1])))
       = Inr (in' Flow_id (PyList [ItemUUID 1]))
   \<and> as_sql_filter (LFlowFilterId (FlowFilterId (Some [1]))) \<noteq> NoneResult
   \<and> is_comparison (as_sql_filter (LFlowFilterId (FlowFilterId (Some [1]))))"
proof -
  have i: "leaf_init (LFlowFilterId (FlowFilterId (Some [1])))
     = Inr (LFlowFilterId (FlowFilterId (Some [1])))"
    by (simp add: leaf_init_unfold validate_model_unfold check_defs get_def py_defs)
  show ?thesis
    using i validated_leaf_as_sql_filter_total [OF i] by (simp add: py_defs)
qed

text \<open>
  Without validation the call does fail: on \<^verbatim>\<open>any_ = None\<close> the unguarded \<^verbatim>\<open>in_\<close> raises,
  and a filter with two operators, both \<^verbatim>\<open>None\<close>, falls through to \<^verbatim>\<open>None\<close>.
\<close>

lemma unvalidated_leaf_as_sql_filter_fails:
  "call_as_sql_filter (LFlowFilterId (FlowFilterId None)) = Inl ArgumentError"
  "call_as_sql_filter (LFlowFilterTags (FlowFilterTags None None)) = Inr NoneResult"
  by (simp_all add: call_as_sql_filter_def py_defs)

section \<open>Composite filters\<close>

text \<open>
  C1 at the composites with no leaf filter: the construction of each of them raises with
  \<open>MissingOperator\<close>, because the composite classes inherit
  \<^verbatim>\<open>check_at_least_one_operator_is_not_none\<close>. \<^verbatim>\<open>as_sql_filter\<close> on the same field values
  takes its \<^verbatim>\<open>else\<close> branch and returns \<^verbatim>\<open>sa.and_(True)\<close>.
\<close>

theorem empty_composite_is_rejected:
  "FlowFilter_init (FlowFilter None None None) = Inl [MissingOperator]
   \<and> FlowRunFilter_init (FlowRunFilter None None None None None None None None None)
       = Inl [MissingOperator]
   \<and> TaskRunFilter_init (TaskRunFilter None None None None) = Inl [MissingOperator]
   \<and> FlowFilter_as_sql_filter (FlowFilter None None None) = and' [PyTrue]
   \<and> FlowRunFilter_as_sql_filter (FlowRunFilter None None None None None None None None None)
       = and' [PyTrue]
   \<and> TaskRunFilter_as_sql_filter (TaskRunFilter None None None None) = and' [PyTrue]"
  by (simp add: FlowFilter_init_def FlowRunFilter_init_def TaskRunFilter_init_def
      validate_model_unfold check_defs get_def py_defs append_filter_def and_filters_def)

text \<open>
  C3, as stated, fails: a \<^verbatim>\<open>FlowRunFilter\<close> with \<^verbatim>\<open>state_type\<close> and \<^verbatim>\<open>flow_version\<close> is built
  without error, and its \<^verbatim>\<open>as_sql_filter\<close> puts the \<^verbatim>\<open>flow_version\<close> fragment before the
  \<^verbatim>\<open>state_type\<close> fragment, the reverse of the declared field order.
\<close>

theorem FlowRunFilter_fragment_order_counterexample:
  "FlowRunFilter_init
     (FlowRunFilter None None None
        (Some (FlowRunFilterStateType (Some [StateType ''RUNNING''])))
        (Some (FlowRunFilterFlowVersion (Some [''v1''])))
        None None None None)
   = Inr (FlowRunFilter None None None
        (Some (FlowRunFilterStateType (Some [StateType ''RUNNING''])))
        (Some (FlowRunFilterFlowVersion (Some [''v1''])))
        None None None None)
   \<and> FlowRunFilter_as_sql_filter
     (FlowRunFilter None None None
        (Some (FlowRunFilterStateType (Some [StateType ''RUNNING''])))
        (Some (FlowRunFilterFlowVersion (Some [''v1''])))
        None None None None)
   = and' [in' FlowRun_flow_version (PyList [ItemStr ''v1'']),
           in' FlowRun_state_type (PyList [ItemStateType (StateType ''RUNNING'')])]
   \<and> FlowRunFilter_as_sql_filter
     (FlowRunFilter None None None
        (Some (FlowRunFilterStateType (Some [StateType ''RUNNING''])))
        (Some (FlowRunFilterFlowVersion (Some [''v1''])))
        None None None None)
   \<noteq> and' [in' FlowRun_state_type (PyList [ItemStateType (StateType ''RUNNING'')]),
           in' FlowRun_flow_version (PyList [ItemStr ''v1''])]"
  by (simp add: FlowRunFilter_init_def validate_model_unfold check_defs get_def py_defs
        append_filter_def and_filters_def)

lemma append_filter_populated:
  "append_filter fs x c = fs @ populated [map_option c x]"
  by (cases x) (simp_all add: append_filter_def populated_def)

lemma populated_Cons2: "populated (x # y # ys) = populated [x] @ populated (y # ys)"
  by (simp add: populated_def)

text \<open>
  C3, amended. \<^verbatim>\<open>as_sql_filter\<close> of a composite collects the fragments of its populated
  leaf filters in a fixed order and wraps them in \<^verbatim>\<open>sa.and_\<close> (\<^verbatim>\<open>sa.and_(True)\<close> when there
  is none). For \<^verbatim>\<open>FlowFilter\<close> (id, name, tags) and \<^verbatim>\<open>TaskRunFilter\<close> (id, tags, state_type,
  start_time) the order is the declared field order; for \<^verbatim>\<open>FlowRunFilter\<close> it is id, tags,
  deployment_id, flow_version, state_type, start_time, expected_start_time,
  next_scheduled_start_time, parent_task_run_id: the declared order with \<^verbatim>\<open>flow_version\<close>
  before \<^verbatim>\<open>state_type\<close>.
\<close>

theorem composite_fragment_order:
  "FlowFilter_as_sql_filter (FlowFilter flow_id flow_name flow_tags) =
     (let fragments = populated
        [map_option FlowFilterId_as_sql_filter flow_id,
         map_option FlowFilterName_as_sql_filter flow_name,
         map_option FlowFilterTags_as_sql_filter flow_tags]
      in if fragments = [] then and' [PyTrue] else and' fragments)
   \<and> FlowRunFilter_as_sql_filter
       (FlowRunFilter id' tags deployment_id state_type flow_version start_time
          expected_start_time next_scheduled_start_time parent_task_run_id) =
     (let fragments = populated
        [map_option FlowRunFilterId_as_sql_filter id',
         map_option FlowRunFilterTags_as_sql_filter tags,
         map_option FlowRunFilterDeploymentId_as_sql_filter deployment_id,
         map_option FlowRunFilterFlowVersion_as_sql_filter flow_version,
         map_option FlowRunFilterStateType_as_sql_filter state_type,
         map_option FlowRunFilterStartTime_as_sql_filter start_time,
         map_option FlowRunFilterExpectedStartTime_as_sql_filter expected_start_time,
         map_option FlowRunFilterNextScheduledStartTime_as_sql_filter next_scheduled_start_time,
         map_option FlowRunFilterParentTaskRunId_as_sql_filter parent_task_run_id]
      in if fragments = [] then and' [PyTrue] else and' fragments)
   \<and> TaskRunFilter_as_sql_filter
       (TaskRunFilter task_run_id task_run_tags task_run_state_type task_run_start_time) =
     (let fragments = populated
        [map_option TaskRunFilterId_as_sql_filter task_run_id,
         map_option TaskRunFilterTags_as_sql_filter task_run_tags,
         map_option TaskRunFilterStateType_as_sql_filter task_run_state_type,
         map_option TaskRunFilterStartTime_as_sql_filter task_run_start_time]
      in if fragments = [] then and' [PyTrue] else and' fragments)"
  by (simp add: Let_def append_filter_populated and_filters_def populated_Cons2)

section \<open>Pagination\<close>

text \<open>
  C8. The construction of \<^verbatim>\<open>Pagination\<close> fails exactly when a limit is supplied that is
  negative or greater than the maximum \<^verbatim>\<open>default_limit\<close>, or an offset is supplied that is
  negative; every error it then reports is \<open>OutOfRange\<close>. When it succeeds, an absent limit
  is \<^verbatim>\<open>default_limit\<close> and an absent offset is 0, and a supplied value is kept.
\<close>

theorem Pagination_init_OutOfRange_iff:
  "((\<exists>errors. Pagination_init default_limit limit' offset' = Inl errors)
      \<longleftrightarrow> (\<exists>l. limit' = Some l \<and> (l < 0 \<or> default_limit < l))
        \<or> (\<exists>k. offset' = Some k \<and> k < 0))
   \<and> (\<forall>errors. Pagination_init default_limit limit' offset' = Inl errors
        \<longrightarrow> errors \<noteq> [] \<and> set errors \<subseteq> {OutOfRange ''limit'', OutOfRange ''offset''})
   \<and> (\<forall>p. Pagination_init default_limit limit' offset' = Inr p
        \<longrightarrow> limit p = (case limit' of None \<Rightarrow> default_limit | Some l \<Rightarrow> l)
          \<and> offset p = (case offset' of None \<Rightarrow> 0 | Some k \<Rightarrow> k))"
  by (auto simp: Pagination_init_def conint_def field_errors_def Let_def
        split: option.splits sum.splits if_splits)

theorem Pagination_init_OutOfRange_iff_witness:
  "Pagination_init 200 (Some 201) None = Inl [OutOfRange ''limit'']
   \<and> Pagination_init 200 (Some 10) (Some (- 1)) = Inl [OutOfRange ''offset'']
   \<and> (\<exists>p. Pagination_init 200 None None = Inr p \<and> limit p = 200 \<and> offset p = 0)"
proof -
  have a: "Pagination_init 200 (Some 201) None = Inl [OutOfRange ''limit'']"
    by (simp add: Pagination_init_def conint_def field_errors_def)
  have b: "Pagination_init 200 (Some 10) (Some (- 1)) = Inl [OutOfRange ''offset'']"
    by (simp add: Pagination_init_def conint_def field_errors_def)
  have c: "Pagination_init 200 None None = Inr \<lparr>limit = 200, offset = 0\<rparr>"
    by (simp add: Pagination_init_def)
  show ?thesis
    using a b c
      Pagination_init_OutOfRange_iff [of 200 "Some 201" None]
      Pagination_init_OutOfRange_iff [of 200 None None]
    by simp
qed

text \<open>
  C10, as stated, fails for a negative setting: with \<^verbatim>\<open>default_limit = -1\<close> the supplied
  limit -1 equals the default and is rejected by \<^verbatim>\<open>ge=0\<close>.
\<close>

theorem Pagination_limit_maximum_counterexample:
  "Pagination_init (- 1) (Some (- 1)) None = Inl [OutOfRange ''limit'']"
  by (simp add: Pagination_init_def conint_def field_errors_def)

text \<open>
  C10, amended. The upper bound of \<^verbatim>\<open>limit\<close> is the setting that is also its default: a
  supplied limit greater than \<^verbatim>\<open>default_limit\<close> fails with \<open>OutOfRange\<close>, whatever the
  setting. A supplied limit equal to \<^verbatim>\<open>default_limit\<close> is accepted (with an absent or
  non-negative offset) when the setting is non-negative, and fails with \<open>OutOfRange\<close> when
  the setting is negative.
\<close>

theorem Pagination_limit_maximum_is_default:
  "(default_limit < l \<longrightarrow>
      raises (Pagination_init default_limit (Some l) offset') (OutOfRange ''limit''))
   \<and> (0 \<le> default_limit \<longrightarrow>
        Pagination_init default_limit (Some default_limit) None
          = Inr \<lparr>limit = default_limit, offset = 0\<rparr>)
   \<and> (0 \<le> default_limit \<and> 0 \<le> k \<longrightarrow>
        Pagination_init default_limit (Some default_limit) (Some k)
          = Inr \<lparr>limit = default_limit, offset = k\<rparr>)
   \<and> (default_limit < 0 \<longrightarrow>
        raises (Pagination_init default_limit (Some default_limit) offset')
          (OutOfRange ''limit''))"
proof -
  have limit_ok: "conint (Some 0) (Some default_limit) ''limit'' default_limit = Inr default_limit"
    if "0 \<le> default_limit"
    using that by (simp add: conint_def)
  have too_large: "conint (Some 0) (Some default_limit) ''limit'' l = Inl (OutOfRange ''limit'')"
    if "default_limit < l"
    using that by (simp add: conint_def)
  have negative: "conint (Some 0) (Some default_limit) ''limit'' default_limit
      = Inl (OutOfRange ''limit'')"
    if "default_limit < 0"
    using that by (simp add: conint_def)
  have offset_ok: "conint (Some 0) None ''offset'' k = Inr k" if "0 \<le> k"
    using that by (simp add: conint_def)
  show ?thesis
    by (auto simp: raises_def Pagination_init_def limit_ok too_large negative offset_ok
          field_errors_def split: option.splits sum.splits)
qed

theorem Pagination_limit_maximum_is_default_witness:
  "raises (Pagination_init 200 (Some 201) None) (OutOfRange ''limit'')
   \<and> Pagination_init 200 (Some 200) None = Inr \<lparr>limit = 200, offset = 0\<rparr>
   \<and> Pagination_init 200 (Some 200) (Some 3) = Inr \<lparr>limit = 200, offset = 3\<rparr>
   \<and> raises (Pagination_init (- 1) (Some (- 1)) None) (OutOfRange ''limit'')"
  using Pagination_limit_maximum_is_default [of 200 201 None 3]
        Pagination_limit_maximum_is_default [of "- 1" 0 None 0]
  by simp

end
